theory Spec2Isabelle
  imports Main "HOL-Library.Word"
begin

section \<open>Data model (\<^verbatim>\<open>interface.go\<close>)\<close>

text \<open>
  \<^verbatim>\<open>TrackInfo\<close> is a struct of five strings and a \<^verbatim>\<open>time.Duration\<close> (an int64 count of
  nanoseconds). Go strings are byte sequences, so a string is a list of \<^typ>\<open>char\<close>.
\<close>

record TrackInfo =
  Title :: string
  Artist :: string
  Album :: string
  Station :: string
  ImageURL :: string
  Duration :: "64 word"

text \<open>
  \<^verbatim>\<open>type PlaybackState string\<close>: the source declares a string type with three named
  constants, not a closed enumeration, so every string is a value of the type.
\<close>

type_synonym PlaybackState = string

definition StatePlaying :: PlaybackState where
  "StatePlaying = ''Playing''"

definition StatePaused :: PlaybackState where
  "StatePaused = ''Paused''"

definition StateStopped :: PlaybackState where
  "StateStopped = ''Stopped''"

record Options =
  AppName :: string
  Icon :: string
  Timeout :: "32 word"
  NotifyOnPause :: bool
  ReplaceExisting :: bool

definition DefaultOptions :: "string \<Rightarrow> Options" where
  "DefaultOptions appName =
     \<lparr>AppName = appName, Icon = ''media-playback-start'', Timeout = 5000,
      NotifyOnPause = False, ReplaceExisting = True\<rparr>"

section \<open>The session bus as seen by the notifier\<close>

text \<open>
  The godbus library is outside the repository. What the notifier observes of it is
  modelled as data: a connection is an identifier, a Go \<^verbatim>\<open>error\<close> is either an error
  of the library or an error wrapped with a message by \<^verbatim>\<open>fmt.Errorf("...: %w", err)\<close>,
  and the \<^verbatim>\<open>*dbus.Call\<close> that \<^verbatim>\<open>obj.Call\<close> returns is a record of its \<^verbatim>\<open>Err\<close> and
  \<^verbatim>\<open>Body\<close> fields. The elements of \<^verbatim>\<open>Body\<close> are \<^verbatim>\<open>interface{}\<close> values; the notifier
  only asks whether the first one is a \<^verbatim>\<open>uint32\<close> or a \<^verbatim>\<open>[]string\<close>.
\<close>

type_synonym conn = nat

datatype error = DBusError string | Errorf string error

datatype body_value =
    Uint32 "32 word"
  | Int32 "32 word"
  | Str string
  | StrArray "string list"
  | OtherValue nat

record Call =
  Err :: "error option"
  Body :: "body_value list"

text \<open>
  The positional arguments of the remote method \<^verbatim>\<open>Notify\<close>, named as the comments at the
  call site name them.
\<close>

record notify_args =
  app_name :: string
  replaces_id :: "32 word"
  app_icon :: string
  summary :: string
  body :: string
  actions :: "string list"
  hints :: "(string \<times> body_value) list"
  expire_timeout :: "32 word"

text \<open>
  Every effect on the bus is recorded as an event, in the order the code performs it:
  opening the session connection, the two remote method calls, closing a connection.
  An operation of the notifier returns the events it caused; a transport call is a
  \<open>NotifyCall\<close> or \<open>GetCapabilitiesCall\<close> event.
\<close>

datatype bus_event =
    Connected conn
  | GetCapabilitiesCall conn
  | NotifyCall conn notify_args
  | Closed conn

text \<open>The connections still open after a sequence of events, starting from \<open>cs\<close>.\<close>

fun open_after :: "conn list \<Rightarrow> bus_event list \<Rightarrow> conn list" where
  "open_after cs [] = cs"
| "open_after cs (Connected c # es) = open_after (c # cs) es"
| "open_after cs (Closed c # es) = open_after (removeAll c cs) es"
| "open_after cs (GetCapabilitiesCall c # es) = open_after cs es"
| "open_after cs (NotifyCall c a # es) = open_after cs es"

section \<open>The notifier (\<^verbatim>\<open>notifier_linux.go\<close>)\<close>

text \<open>
  The fields of \<^verbatim>\<open>Notifier\<close> are unexported and \<^verbatim>\<open>NewNotifier\<close> always sets \<^verbatim>\<open>conn\<close>, so
  a notifier holds a connection identifier.
\<close>

record Notifier =
  conn :: conn
  options :: Options
  lastID :: string
  replaceID :: "32 word"

text \<open>
  \<^verbatim>\<open>NewNotifier\<close>. The outcome of \<^verbatim>\<open>dbus.ConnectSessionBus()\<close> and the \<^verbatim>\<open>*dbus.Call\<close> of
  the \<^verbatim>\<open>GetCapabilities\<close> probe are inputs chosen by the environment.
\<close>

definition NewNotifier ::
  "Options \<Rightarrow> error + conn \<Rightarrow> Call \<Rightarrow> (error + Notifier) \<times> bus_event list" where
  "NewNotifier opts connect probe =
     (case connect of
        Inl err \<Rightarrow> (Inl (Errorf ''failed to connect to session bus: '' err), [])
      | Inr c \<Rightarrow>
          (case Err probe of
             Some cerr \<Rightarrow>
               (Inl (Errorf ''D-Bus notifications not available: '' cerr),
                [Connected c, GetCapabilitiesCall c, Closed c])
           | None \<Rightarrow>
               (Inr \<lparr>conn = c, options = opts, lastID = [], replaceID = 0\<rparr>,
                [Connected c, GetCapabilitiesCall c])))"

text \<open>
  The string literal that \<^verbatim>\<open>showNotification\<close> puts before the body of a paused track,
  byte for byte as the source file has it: \<^verbatim>\<open>c3 a2 c2 b8\<close>, the UTF-8 encoding of the two
  code points U+00E2 and U+00B8, followed by a space.
\<close>

definition pausePrefix :: string where
  "pausePrefix = [CHR 0xC3, CHR 0xA2, CHR 0xC2, CHR 0xB8, CHR '' '']"

text \<open>
  The pause glyph, for comparison with the literal above: the code point U+23F8
  (double vertical bar), whose UTF-8 encoding is \<^verbatim>\<open>e2 8f b8\<close>. It does not occur in the
  source.
\<close>

definition pauseGlyph :: string where
  "pauseGlyph = [CHR 0xE2, CHR 0x8F, CHR 0xB8]"

text \<open>
  \<^verbatim>\<open>showNotification\<close>. The argument \<open>call\<close> is the \<^verbatim>\<open>*dbus.Call\<close> that the transport
  returns for the \<^verbatim>\<open>Notify\<close> method call. The result is the returned error
  (\<open>None\<close> for \<^verbatim>\<open>nil\<close>), the notifier after the call and the bus events caused.
\<close>

definition showNotification ::
  "Notifier \<Rightarrow> TrackInfo \<Rightarrow> PlaybackState \<Rightarrow> Call
     \<Rightarrow> error option \<times> Notifier \<times> bus_event list" where
  "showNotification n track state call =
     (let body0 =
            (if Artist track \<noteq> [] \<and> Album track \<noteq> []
               then Artist track @ [CHR 0x0A] @ Album track
             else if Artist track \<noteq> [] then Artist track
             else if Station track \<noteq> [] then Station track
             else ''Now Playing'');
          body1 = (if state = StatePaused then pausePrefix @ body0 else body0);
          summary0 = (if Title track = [] then ''Now Playing'' else Title track);
          appName = (if AppName (options n) = [] then ''Music Player''
                     else AppName (options n));
          icon = (if Icon (options n) = [] then ''media-playback-start''
                  else Icon (options n));
          rid = (if \<not> ReplaceExisting (options n) then 0 else replaceID n);
          sent = NotifyCall (conn n)
                   \<lparr>app_name = appName, replaces_id = rid, app_icon = icon,
                    summary = summary0, body = body1, actions = [], hints = [],
                    expire_timeout = Timeout (options n)\<rparr>
      in case Err call of
           Some cerr \<Rightarrow> (Some (Errorf ''failed to show notification: '' cerr), n, [sent])
         | None \<Rightarrow>
             (None,
              (if ReplaceExisting (options n)
                 then (case Body call of
                         Uint32 i # rest \<Rightarrow> n\<lparr>replaceID := i\<rparr>
                       | _ \<Rightarrow> n)
               else n),
              [sent]))"

text \<open>
  The identity key of a track: \<^verbatim>\<open>fmt.Sprintf("%s-%s-%s", Title, Artist, Album)\<close>, the
  local variable \<^verbatim>\<open>currentID\<close> of \<^verbatim>\<open>Notify\<close>.
\<close>

definition currentID :: "TrackInfo \<Rightarrow> string" where
  "currentID track = Title track @ ''-'' @ Artist track @ ''-'' @ Album track"

text \<open>\<^verbatim>\<open>Notify\<close>. A \<^verbatim>\<open>nil\<close> track pointer is \<open>None\<close>.\<close>

definition Notify ::
  "Notifier \<Rightarrow> TrackInfo option \<Rightarrow> PlaybackState \<Rightarrow> Call
     \<Rightarrow> error option \<times> Notifier \<times> bus_event list" where
  "Notify n track state call =
     (case track of
        None \<Rightarrow> (None, n, [])
      | Some t \<Rightarrow>
          if Title t = [] \<and> Artist t = [] then (None, n, [])
          else if state = StatePaused \<and> \<not> NotifyOnPause (options n) then (None, n, [])
          else if currentID t = lastID n then (None, n, [])
          else showNotification (n\<lparr>lastID := currentID t\<rparr>) t state call)"

text \<open>\<^verbatim>\<open>NotifyNow\<close>.\<close>

definition NotifyNow ::
  "Notifier \<Rightarrow> TrackInfo option \<Rightarrow> PlaybackState \<Rightarrow> Call
     \<Rightarrow> error option \<times> Notifier \<times> bus_event list" where
  "NotifyNow n track state call =
     (case track of
        None \<Rightarrow> (None, n, [])
      | Some t \<Rightarrow> showNotification n t state call)"

text \<open>The three components of an operation's result.\<close>

definition returned :: "error option \<times> Notifier \<times> bus_event list \<Rightarrow> error option" where
  "returned r = fst r"

definition after :: "error option \<times> Notifier \<times> bus_event list \<Rightarrow> Notifier" where
  "after r = fst (snd r)"

definition events :: "error option \<times> Notifier \<times> bus_event list \<Rightarrow> bus_event list" where
  "events r = snd (snd r)"

section \<open>Example values\<close>

text \<open>
  A notifier as \<^verbatim>\<open>NewNotifier(DefaultOptions("Foo"))\<close> returns it on connection 1, a
  notifier that stacks notifications and holds a stale handle, some tracks, and two
  answers of the transport.
\<close>

definition fooNotifier :: Notifier where
  "fooNotifier = \<lparr>conn = 1, options = DefaultOptions ''Foo'', lastID = [], replaceID = 0\<rparr>"

definition stackingNotifier :: Notifier where
  "stackingNotifier =
     \<lparr>conn = 1,
      options = \<lparr>AppName = [], Icon = [], Timeout = 3000, NotifyOnPause = True,
                 ReplaceExisting = False\<rparr>,
      lastID = [], replaceID = 9\<rparr>"

definition trackABC :: TrackInfo where
  "trackABC =
     \<lparr>Title = ''A'', Artist = ''B'', Album = ''C'', Station = [], ImageURL = [],
      Duration = 0\<rparr>"

definition trackXYZ :: TrackInfo where
  "trackXYZ =
     \<lparr>Title = ''X'', Artist = ''Y'', Album = ''Z'', Station = [], ImageURL = [],
      Duration = 0\<rparr>"

definition trackTitleOnly :: TrackInfo where
  "trackTitleOnly =
     \<lparr>Title = ''A'', Artist = [], Album = ''C'', Station = [], ImageURL = [],
      Duration = 0\<rparr>"

definition trackStation :: TrackInfo where
  "trackStation =
     \<lparr>Title = [], Artist = [], Album = [], Station = ''KEXP'', ImageURL = [],
      Duration = 0\<rparr>"

definition replyWith :: "32 word \<Rightarrow> Call" where
  "replyWith h = \<lparr>Err = None, Body = [Uint32 h]\<rparr>"

definition failedCall :: Call where
  "failedCall = \<lparr>Err = Some (DBusError ''connection closed''), Body = []\<rparr>"

section \<open>Basic facts about the operations\<close>

text \<open>
  The separator is found again in a concatenation when neither prefix holds it.
\<close>

lemma append_sep_eq:
  "c \<notin> set xs \<Longrightarrow> c \<notin> set xs' \<Longrightarrow> (xs @ c # ys = xs' @ c # ys') = (xs = xs' \<and> ys = ys')"
proof (induction xs arbitrary: xs')
  case Nil
  then show ?case by (cases xs') auto
next
  case (Cons x xs)
  then show ?case by (cases xs') auto
qed

lemma currentID_inj:
  assumes "CHR ''-'' \<notin> set (Title t)" "CHR ''-'' \<notin> set (Title t')"
    and "CHR ''-'' \<notin> set (Artist t)" "CHR ''-'' \<notin> set (Artist t')"
  shows "(currentID t = currentID t') = (Title t = Title t' \<and> Artist t = Artist t' \<and> Album t = Album t')"
  using assms by (simp add: currentID_def append_sep_eq)

lemma after_showNotification:
  "after (showNotification n t s c) =
     (case Err c of
        Some cerr \<Rightarrow> n
      | None \<Rightarrow>
          (if ReplaceExisting (options n)
             then (case Body c of Uint32 i # rest \<Rightarrow> n\<lparr>replaceID := i\<rparr> | _ \<Rightarrow> n)
           else n))"
  by (simp add: showNotification_def after_def Let_def split: option.split split del: if_split)

lemma showNotification_frame:
  "lastID (after (showNotification n t s c)) = lastID n \<and>
   options (after (showNotification n t s c)) = options n \<and>
   conn (after (showNotification n t s c)) = conn n"
  by (simp add: after_showNotification split: option.split list.split body_value.split)

lemma showNotification_only_replaceID:
  "(after (showNotification n t s c))\<lparr>replaceID := replaceID n\<rparr> = n"
  by (simp add: after_showNotification split: option.split list.split body_value.split)

lemma events_showNotification:
  "\<exists>a. events (showNotification n t s c) = [NotifyCall (conn n) a] \<and>
       replaces_id a = (if ReplaceExisting (options n) then replaceID n else 0)"
proof (cases "ReplaceExisting (options n)")
  case True
  then show ?thesis
    by (simp add: showNotification_def events_def Let_def split: option.split split del: if_split)
next
  case False
  then show ?thesis
    by (simp add: showNotification_def events_def Let_def split: option.split split del: if_split)
qed

lemma returned_showNotification:
  "returned (showNotification n t s c) =
     (case Err c of Some cerr \<Rightarrow> Some (Errorf ''failed to show notification: '' cerr) | None \<Rightarrow> None)"
  by (simp add: showNotification_def returned_def Let_def split: option.split split del: if_split)

text \<open>\<^verbatim>\<open>Notify\<close>, by its four guards.\<close>

lemma Notify_nil: "Notify n None s c = (None, n, [])"
  by (simp add: Notify_def)

lemma Notify_nothing_playing:
  "Title t = [] \<Longrightarrow> Artist t = [] \<Longrightarrow> Notify n (Some t) s c = (None, n, [])"
  by (simp add: Notify_def)

lemma Notify_paused:
  "\<not> NotifyOnPause (options n) \<Longrightarrow> Notify n tr StatePaused c = (None, n, [])"
  by (simp add: Notify_def split: option.split)

lemma Notify_duplicate:
  "currentID t = lastID n \<Longrightarrow> Notify n (Some t) s c = (None, n, [])"
  by (simp add: Notify_def)

lemma Notify_accepted:
  assumes "Title t \<noteq> [] \<or> Artist t \<noteq> []"
    and "\<not> (s = StatePaused \<and> \<not> NotifyOnPause (options n))"
    and "currentID t \<noteq> lastID n"
  shows "Notify n (Some t) s c = showNotification (n\<lparr>lastID := currentID t\<rparr>) t s c"
  using assms by (auto simp add: Notify_def)

lemma Notify_cases:
  "Notify n (Some t) s c = (None, n, []) \<or>
   (Title t \<noteq> [] \<or> Artist t \<noteq> []) \<and> \<not> (s = StatePaused \<and> \<not> NotifyOnPause (options n)) \<and>
     currentID t \<noteq> lastID n \<and>
     Notify n (Some t) s c = showNotification (n\<lparr>lastID := currentID t\<rparr>) t s c"
  by (auto simp add: Notify_def)

lemma events_Notify_empty_iff:
  "(events (Notify n (Some t) s c) = []) =
     (Title t = [] \<and> Artist t = [] \<or> s = StatePaused \<and> \<not> NotifyOnPause (options n) \<or>
      currentID t = lastID n)"
proof -
  have "events (showNotification (n\<lparr>lastID := currentID t\<rparr>) t s c) \<noteq> []"
    using events_showNotification [of "n\<lparr>lastID := currentID t\<rparr>" t s c] by auto
  then show ?thesis
    by (auto simp add: Notify_def events_def)
qed

lemma Notify_suppressed:
  "events (Notify n tr s c) = [] \<Longrightarrow> Notify n tr s c' = (None, n, [])"
proof (cases tr)
  case None
  then show ?thesis by (simp add: Notify_nil)
next
  case (Some t)
  assume "events (Notify n tr s c) = []"
  then have "Title t = [] \<and> Artist t = [] \<or> s = StatePaused \<and> \<not> NotifyOnPause (options n) \<or>
      currentID t = lastID n"
    using Some by (simp add: events_Notify_empty_iff)
  then show ?thesis using Some by (auto simp add: Notify_def)
qed

lemma Notify_frame:
  "options (after (Notify n tr s c)) = options n \<and> conn (after (Notify n tr s c)) = conn n"
proof (cases tr)
  case None
  then show ?thesis by (simp add: Notify_nil after_def)
next
  case (Some t)
  show ?thesis
    using Notify_cases [of n t s c] Some
      showNotification_frame [of "n\<lparr>lastID := currentID t\<rparr>" t s c]
    by (auto simp: after_def)
qed

lemma lastID_after_Notify:
  assumes "Title t \<noteq> [] \<or> Artist t \<noteq> []"
    and "\<not> (s = StatePaused \<and> \<not> NotifyOnPause (options n))"
  shows "lastID (after (Notify n (Some t) s c)) = currentID t"
proof (cases "currentID t = lastID n")
  case True
  then show ?thesis by (simp add: Notify_duplicate after_def)
next
  case False
  then show ?thesis
    using assms showNotification_frame [of "n\<lparr>lastID := currentID t\<rparr>" t s c]
    by (simp add: Notify_accepted)
qed

lemma events_Notify_accepted:
  assumes "Title t \<noteq> [] \<or> Artist t \<noteq> []"
    and "\<not> (s = StatePaused \<and> \<not> NotifyOnPause (options n))"
    and "currentID t \<noteq> lastID n"
  shows "\<exists>a. events (Notify n (Some t) s c) = [NotifyCall (conn n) a] \<and>
             replaces_id a = (if ReplaceExisting (options n) then replaceID n else 0)"
proof -
  have "Notify n (Some t) s c = showNotification (n\<lparr>lastID := currentID t\<rparr>) t s c"
    using assms by (rule Notify_accepted)
  then show ?thesis
    using events_showNotification [of "n\<lparr>lastID := currentID t\<rparr>" t s c] by auto
qed

lemma replaces_id_Notify:
  assumes "NotifyCall c a \<in> set (events (Notify n tr s call))"
  shows "replaces_id a = (if ReplaceExisting (options n) then replaceID n else 0)"
proof (cases tr)
  case None
  then show ?thesis using assms by (simp add: Notify_nil events_def)
next
  case (Some t)
  then have ne: "events (Notify n (Some t) s call) \<noteq> []" using assms by auto
  then have acc: "(Title t \<noteq> [] \<or> Artist t \<noteq> [])"
     "\<not> (s = StatePaused \<and> \<not> NotifyOnPause (options n))" "currentID t \<noteq> lastID n"
    using events_Notify_empty_iff [of n t s call] by auto
  show ?thesis
    using events_Notify_accepted [OF acc, of call] assms Some by auto
qed

lemma replaces_id_NotifyNow:
  assumes "NotifyCall c a \<in> set (events (NotifyNow n tr s call))"
  shows "replaces_id a = (if ReplaceExisting (options n) then replaceID n else 0)"
proof (cases tr)
  case None
  then show ?thesis using assms by (simp add: NotifyNow_def events_def)
next
  case (Some t)
  then show ?thesis
    using assms events_showNotification [of n t s call] by (auto simp: NotifyNow_def)
qed

section \<open>The claims\<close>

subsection \<open>C1: deduplication of successive updates\<close>

text \<open>
  Claim C1, as the code has it. Let the first \<^verbatim>\<open>Notify\<close> for track \<open>t\<close> in state \<open>s\<close>
  leave the notifier \<open>n1\<close> and cause the events \<open>ev1\<close>. Then the two calls with the
  same track and state cause at most one transport call; the second call, whatever the
  transport would answer, causes none and leaves the notifier unchanged; the same holds
  for a second track that agrees with \<open>t\<close> on title, artist and album and differs
  only in station, image URL or duration. A second track causes exactly one transport
  call when both tracks have a title or an artist, the state is not \<open>Paused\<close> under
  \<open>NotifyOnPause = False\<close>, and the identity keys of the two tracks differ; the keys
  differ in particular when title, artist or album changed and no title or artist
  contains the separator \<open>-\<close>.
\<close>

theorem C1_dedup:
  assumes first: "Notify n (Some t) s c1 = (e1, n1, ev1)"
  shows "length (ev1 @ events (Notify n1 (Some t) s c2)) \<le> 1 \<and>
         Notify n1 (Some t) s c2 = (None, n1, []) \<and>
         (Title t' = Title t \<and> Artist t' = Artist t \<and> Album t' = Album t \<longrightarrow>
            Notify n1 (Some t') s c2 = (None, n1, [])) \<and>
         ((Title t \<noteq> [] \<or> Artist t \<noteq> []) \<and> (Title t' \<noteq> [] \<or> Artist t' \<noteq> []) \<and>
          \<not> (s = StatePaused \<and> \<not> NotifyOnPause (options n)) \<and>
          (currentID t' \<noteq> currentID t \<or>
           CHR ''-'' \<notin> set (Title t) \<union> set (Artist t) \<union> set (Title t') \<union> set (Artist t') \<and>
           (Title t' \<noteq> Title t \<or> Artist t' \<noteq> Artist t \<or> Album t' \<noteq> Album t)) \<longrightarrow>
            (\<exists>a. events (Notify n1 (Some t') s c2) = [NotifyCall (conn n) a]))"
proof -
  have n1: "n1 = after (Notify n (Some t) s c1)" and ev1: "ev1 = events (Notify n (Some t) s c1)"
    using first by (simp_all add: after_def events_def)
  have frame: "options n1 = options n" "conn n1 = conn n"
    using Notify_frame [of n "Some t" s c1] n1 by simp_all
  have len1: "length ev1 \<le> 1"
    using Notify_cases [of n t s c1] events_showNotification [of "n\<lparr>lastID := currentID t\<rparr>" t s c1] ev1
    by (auto simp: events_def)
  have same: "Notify n1 (Some u) s c2 = (None, n1, [])"
    if u: "Title u = Title t" "Artist u = Artist t" "Album u = Album t" for u
  proof -
    have key: "currentID u = currentID t" using u by (simp add: currentID_def)
    show ?thesis
    proof (cases "ev1 = []")
      case True
      then have sup: "events (Notify n (Some t) s c1) = []" using ev1 by simp
      then have "n1 = n" using Notify_suppressed [of n "Some t" s c1 c1] first by simp
      moreover have "Title t = [] \<and> Artist t = [] \<or> s = StatePaused \<and> \<not> NotifyOnPause (options n) \<or>
          currentID t = lastID n"
        using sup by (simp only: events_Notify_empty_iff)
      then have "Title u = [] \<and> Artist u = [] \<or> s = StatePaused \<and> \<not> NotifyOnPause (options n) \<or>
          currentID u = lastID n"
        by (simp only: u key)
      then have "events (Notify n (Some u) s c1) = []"
        by (simp only: events_Notify_empty_iff)
      ultimately show ?thesis using Notify_suppressed [of n "Some u" s c1 c2] by simp
    next
      case False
      then have "events (Notify n (Some t) s c1) \<noteq> []" using ev1 by simp
      then have "(Title t \<noteq> [] \<or> Artist t \<noteq> [])" "\<not> (s = StatePaused \<and> \<not> NotifyOnPause (options n))"
        using events_Notify_empty_iff [of n t s c1] by blast+
      then have "lastID n1 = currentID t" using n1 by (simp add: lastID_after_Notify)
      then have "currentID u = lastID n1" using key by simp
      then show ?thesis by (rule Notify_duplicate)
    qed
  qed
  have changed: "\<exists>a. events (Notify n1 (Some t') s c2) = [NotifyCall (conn n) a]"
    if g: "Title t \<noteq> [] \<or> Artist t \<noteq> []" and g': "Title t' \<noteq> [] \<or> Artist t' \<noteq> []"
      and p: "\<not> (s = StatePaused \<and> \<not> NotifyOnPause (options n))"
      and d: "currentID t' \<noteq> currentID t \<or>
           CHR ''-'' \<notin> set (Title t) \<union> set (Artist t) \<union> set (Title t') \<union> set (Artist t') \<and>
           (Title t' \<noteq> Title t \<or> Artist t' \<noteq> Artist t \<or> Album t' \<noteq> Album t)"
  proof -
    have key: "currentID t' \<noteq> currentID t"
      using d currentID_inj [of t' t] by auto
    have "lastID n1 = currentID t" using g p n1 by (simp add: lastID_after_Notify)
    then have "currentID t' \<noteq> lastID n1" using key by simp
    moreover have "\<not> (s = StatePaused \<and> \<not> NotifyOnPause (options n1))" using p frame by simp
    ultimately show ?thesis
      using events_Notify_accepted [of t' s n1 c2] g' frame by auto
  qed
  have second: "Notify n1 (Some t) s c2 = (None, n1, [])" using same [of t] by simp
  have "length (ev1 @ events (Notify n1 (Some t) s c2)) \<le> 1"
    using len1 second by (simp add: events_def)
  then show ?thesis using second same [of t'] changed by blast
qed

text \<open>
  C1 at concrete values: track A/B/C, then the same track, the same track with another
  station, image and duration, and track X/Y/Z.
\<close>

theorem C1_dedup_witness:
  "Notify fooNotifier (Some trackABC) StatePlaying (replyWith 7) =
     (None, fooNotifier\<lparr>lastID := ''A-B-C'', replaceID := 7\<rparr>,
      [NotifyCall 1
         \<lparr>app_name = ''Foo'', replaces_id = 0, app_icon = ''media-playback-start'',
          summary = ''A'', body = ''B'' @ [CHR 0x0A] @ ''C'', actions = [], hints = [],
          expire_timeout = 5000\<rparr>]) \<and>
   Notify (fooNotifier\<lparr>lastID := ''A-B-C'', replaceID := 7\<rparr>) (Some trackABC) StatePlaying
     (replyWith 8) = (None, fooNotifier\<lparr>lastID := ''A-B-C'', replaceID := 7\<rparr>, []) \<and>
   Notify (fooNotifier\<lparr>lastID := ''A-B-C'', replaceID := 7\<rparr>)
     (Some (trackABC\<lparr>Station := ''KEXP'', ImageURL := ''art.png'', Duration := 180\<rparr>))
     StatePlaying (replyWith 8) = (None, fooNotifier\<lparr>lastID := ''A-B-C'', replaceID := 7\<rparr>, []) \<and>
   (\<exists>a. events (Notify (fooNotifier\<lparr>lastID := ''A-B-C'', replaceID := 7\<rparr>) (Some trackXYZ)
           StatePlaying (replyWith 8)) = [NotifyCall 1 a])"
proof -
  let ?ev = "NotifyCall 1
         \<lparr>app_name = ''Foo'', replaces_id = 0, app_icon = ''media-playback-start'',
          summary = ''A'', body = ''B'' @ [CHR 0x0A] @ ''C'', actions = [], hints = [],
          expire_timeout = 5000\<rparr>"
  let ?n1 = "fooNotifier\<lparr>lastID := ''A-B-C'', replaceID := 7\<rparr>"
  let ?t' = "trackABC\<lparr>Station := ''KEXP'', ImageURL := ''art.png'', Duration := 180\<rparr>"
  have first: "Notify fooNotifier (Some trackABC) StatePlaying (replyWith 7) = (None, ?n1, [?ev])"
    by (simp add: Notify_def showNotification_def currentID_def Let_def fooNotifier_def
        trackABC_def replyWith_def DefaultOptions_def StatePlaying_def StatePaused_def)
  have same: "Title ?t' = Title trackABC \<and> Artist ?t' = Artist trackABC \<and> Album ?t' = Album trackABC"
    by simp
  have g: "Title trackABC \<noteq> [] \<or> Artist trackABC \<noteq> []"
    "Title trackXYZ \<noteq> [] \<or> Artist trackXYZ \<noteq> []"
    "\<not> (StatePlaying = StatePaused \<and> \<not> NotifyOnPause (options fooNotifier))"
    by (simp_all add: trackXYZ_def trackABC_def StatePlaying_def StatePaused_def)
  have d: "CHR ''-'' \<notin> set (Title trackABC) \<union> set (Artist trackABC) \<union>
                     set (Title trackXYZ) \<union> set (Artist trackXYZ) \<and>
           (Title trackXYZ \<noteq> Title trackABC \<or> Artist trackXYZ \<noteq> Artist trackABC \<or>
            Album trackXYZ \<noteq> Album trackABC)"
    by (simp add: trackXYZ_def trackABC_def)
  have a: "Notify ?n1 (Some trackABC) StatePlaying (replyWith 8) = (None, ?n1, [])"
    using C1_dedup [OF first, of "replyWith 8" ?t'] by blast
  have b: "Notify ?n1 (Some ?t') StatePlaying (replyWith 8) = (None, ?n1, [])"
    using C1_dedup [OF first, of "replyWith 8" ?t'] same by blast
  have "\<exists>a. events (Notify ?n1 (Some trackXYZ) StatePlaying (replyWith 8)) =
          [NotifyCall (conn fooNotifier) a]"
    using C1_dedup [OF first, of "replyWith 8" trackXYZ] g d by blast
  moreover have "conn fooNotifier = 1" by (simp add: fooNotifier_def)
  ultimately have c: "\<exists>a. events (Notify ?n1 (Some trackXYZ) StatePlaying (replyWith 8)) =
          [NotifyCall 1 a]"
    by simp
  show ?thesis by (intro conjI first a b c)
qed

text \<open>
  C1 as stated fails: a change of the title alone, from \<open>A\<close> to the empty title of a
  track without artist, causes no transport call, since the guard for "nothing playing"
  returns first.
\<close>

theorem C1_change_counterexample:
  "Title (trackTitleOnly\<lparr>Title := []\<rparr>) \<noteq> Title trackTitleOnly \<and>
   events (Notify fooNotifier (Some trackTitleOnly) StatePlaying (replyWith 7)) \<noteq> [] \<and>
   events (Notify (after (Notify fooNotifier (Some trackTitleOnly) StatePlaying (replyWith 7)))
            (Some (trackTitleOnly\<lparr>Title := []\<rparr>)) StatePlaying (replyWith 8)) = []"
  by (simp add: Notify_def showNotification_def currentID_def events_def after_def Let_def
      fooNotifier_def trackTitleOnly_def replyWith_def DefaultOptions_def StatePlaying_def
      StatePaused_def)

subsection \<open>C2: the identity key\<close>

text \<open>
  Claim C2 says that the identity key is injective on (title, artist, album). The
  separator \<open>-\<close> may occur in a field, so it is not: the tracks (\<open>a-b\<close>, \<open>c\<close>) and
  (\<open>a\<close>, \<open>b-c\<close>) have the key \<open>a-b-c-\<close>, and \<^verbatim>\<open>Notify\<close> for the second after the
  first causes no transport call. (Lemma \<open>currentID_inj\<close> is the injectivity that does
  hold, on titles and artists without the separator.)
\<close>

theorem C2_key_collision:
  "currentID \<lparr>Title = ''a-b'', Artist = ''c'', Album = [], Station = [], ImageURL = [], Duration = 0\<rparr> =
   currentID \<lparr>Title = ''a'', Artist = ''b-c'', Album = [], Station = [], ImageURL = [], Duration = 0\<rparr> \<and>
   events (Notify fooNotifier
      (Some \<lparr>Title = ''a-b'', Artist = ''c'', Album = [], Station = [], ImageURL = [], Duration = 0\<rparr>)
      StatePlaying (replyWith 7)) \<noteq> [] \<and>
   events (Notify
      (after (Notify fooNotifier
         (Some \<lparr>Title = ''a-b'', Artist = ''c'', Album = [], Station = [], ImageURL = [], Duration = 0\<rparr>)
         StatePlaying (replyWith 7)))
      (Some \<lparr>Title = ''a'', Artist = ''b-c'', Album = [], Station = [], ImageURL = [], Duration = 0\<rparr>)
      StatePlaying (replyWith 8)) = []"
  by (simp add: Notify_def showNotification_def currentID_def events_def after_def Let_def
      fooNotifier_def replyWith_def DefaultOptions_def StatePlaying_def StatePaused_def)

subsection \<open>C3: the replace id\<close>

text \<open>
  Claim C3. With \<open>ReplaceExisting\<close>, when a first \<^verbatim>\<open>Notify\<close> made its transport call and
  the reply carried the handle \<open>h\<close> as a \<^verbatim>\<open>uint32\<close>, the call returns no error, stores
  \<open>h\<close>, and every transport call of the next \<^verbatim>\<open>Notify\<close> passes \<open>h\<close> as replace id; the
  next \<^verbatim>\<open>Notify\<close> does make such a call for a track with another identity key that
  passes the guards. Without \<open>ReplaceExisting\<close>, every transport call of \<^verbatim>\<open>Notify\<close> and
  \<^verbatim>\<open>NotifyNow\<close> passes replace id 0, whatever handle is stored.
\<close>

theorem C3_replace:
  "(ReplaceExisting (options n) \<and> Err call1 = None \<and> Body call1 = Uint32 h # rest \<and>
    Notify n (Some t1) s1 call1 = (e1, n1, [ev1]) \<longrightarrow>
      e1 = None \<and> replaceID n1 = h \<and>
      (\<forall>c a. NotifyCall c a \<in> set (events (Notify n1 (Some t2) s2 call2)) \<longrightarrow>
         replaces_id a = h) \<and>
      ((Title t2 \<noteq> [] \<or> Artist t2 \<noteq> []) \<and>
       \<not> (s2 = StatePaused \<and> \<not> NotifyOnPause (options n)) \<and>
       currentID t2 \<noteq> currentID t1 \<longrightarrow>
         (\<exists>a. events (Notify n1 (Some t2) s2 call2) = [NotifyCall (conn n) a] \<and>
              replaces_id a = h))) \<and>
   (\<not> ReplaceExisting (options m) \<longrightarrow>
      (\<forall>c a. NotifyCall c a \<in> set (events (Notify m tr s call)) \<union>
                               set (events (NotifyNow m tr s call)) \<longrightarrow>
         replaces_id a = 0))"
proof -
  have part1: "e1 = None \<and> replaceID n1 = h \<and>
      (\<forall>c a. NotifyCall c a \<in> set (events (Notify n1 (Some t2) s2 call2)) \<longrightarrow>
         replaces_id a = h) \<and>
      ((Title t2 \<noteq> [] \<or> Artist t2 \<noteq> []) \<and>
       \<not> (s2 = StatePaused \<and> \<not> NotifyOnPause (options n)) \<and>
       currentID t2 \<noteq> currentID t1 \<longrightarrow>
         (\<exists>a. events (Notify n1 (Some t2) s2 call2) = [NotifyCall (conn n) a] \<and>
              replaces_id a = h))"
    if re: "ReplaceExisting (options n)" and ok: "Err call1 = None"
      and bd: "Body call1 = Uint32 h # rest"
      and first: "Notify n (Some t1) s1 call1 = (e1, n1, [ev1])"
  proof -
    let ?n0 = "n\<lparr>lastID := currentID t1\<rparr>"
    have "events (Notify n (Some t1) s1 call1) \<noteq> []"
      using first by (simp add: events_def)
    then have acc: "Title t1 \<noteq> [] \<or> Artist t1 \<noteq> []"
      "\<not> (s1 = StatePaused \<and> \<not> NotifyOnPause (options n))" "currentID t1 \<noteq> lastID n"
      using events_Notify_empty_iff [of n t1 s1 call1] by blast+
    have "Notify n (Some t1) s1 call1 = showNotification ?n0 t1 s1 call1"
      using acc by (rule Notify_accepted)
    then have sn: "showNotification ?n0 t1 s1 call1 = (e1, n1, [ev1])"
      using first by simp
    have "returned (showNotification ?n0 t1 s1 call1) = None"
      using ok by (simp add: returned_showNotification)
    then have e1: "e1 = None" by (simp add: sn returned_def)
    have "after (showNotification ?n0 t1 s1 call1) = ?n0\<lparr>replaceID := h\<rparr>"
      using ok bd re by (simp add: after_showNotification)
    then have n1: "n1 = ?n0\<lparr>replaceID := h\<rparr>" by (simp add: sn after_def)
    have st: "replaceID n1 = h" "ReplaceExisting (options n1)" "lastID n1 = currentID t1"
      "options n1 = options n" "conn n1 = conn n"
      using n1 re by simp_all
    have all: "replaces_id a = h"
      if "NotifyCall c a \<in> set (events (Notify n1 (Some t2) s2 call2))" for c a
      using replaces_id_Notify [OF that] st by simp
    have ex: "\<exists>a. events (Notify n1 (Some t2) s2 call2) = [NotifyCall (conn n) a] \<and>
              replaces_id a = h"
      if g: "Title t2 \<noteq> [] \<or> Artist t2 \<noteq> []"
        and p: "\<not> (s2 = StatePaused \<and> \<not> NotifyOnPause (options n))"
        and d: "currentID t2 \<noteq> currentID t1"
    proof -
      have p': "\<not> (s2 = StatePaused \<and> \<not> NotifyOnPause (options n1))" using p st by simp
      have d': "currentID t2 \<noteq> lastID n1" using d st by simp
      show ?thesis
        using events_Notify_accepted [OF g p' d', of call2] st by simp
    qed
    show ?thesis using e1 st(1) all ex by blast
  qed
  have part2: "replaces_id a = 0"
    if "\<not> ReplaceExisting (options m)"
      and "NotifyCall c a \<in> set (events (Notify m tr s call)) \<union>
                            set (events (NotifyNow m tr s call))" for c a
    using that replaces_id_Notify [of c a m tr s call] replaces_id_NotifyNow [of c a m tr s call]
    by auto
  show ?thesis using part1 part2 by blast
qed

text \<open>
  C3 at concrete values: handle 7 returned for track A/B/C and passed for track X/Y/Z;
  a stacking notifier that stores handle 9 passes 0.
\<close>

theorem C3_replace_witness:
  "ReplaceExisting (options fooNotifier) \<and>
   Notify fooNotifier (Some trackABC) StatePlaying (replyWith 7) =
     (None, fooNotifier\<lparr>lastID := ''A-B-C'', replaceID := 7\<rparr>,
      [NotifyCall 1
         \<lparr>app_name = ''Foo'', replaces_id = 0, app_icon = ''media-playback-start'',
          summary = ''A'', body = ''B'' @ [CHR 0x0A] @ ''C'', actions = [], hints = [],
          expire_timeout = 5000\<rparr>]) \<and>
   (\<exists>a. events (Notify (fooNotifier\<lparr>lastID := ''A-B-C'', replaceID := 7\<rparr>) (Some trackXYZ)
            StatePlaying (replyWith 8)) = [NotifyCall 1 a] \<and> replaces_id a = 7) \<and>
   \<not> ReplaceExisting (options stackingNotifier) \<and> replaceID stackingNotifier = 9 \<and>
   events (NotifyNow stackingNotifier (Some trackABC) StatePlaying (replyWith 8)) =
     [NotifyCall 1
         \<lparr>app_name = ''Music Player'', replaces_id = 0, app_icon = ''media-playback-start'',
          summary = ''A'', body = ''B'' @ [CHR 0x0A] @ ''C'', actions = [], hints = [],
          expire_timeout = 3000\<rparr>]"
proof -
  let ?ev = "NotifyCall 1
         \<lparr>app_name = ''Foo'', replaces_id = 0, app_icon = ''media-playback-start'',
          summary = ''A'', body = ''B'' @ [CHR 0x0A] @ ''C'', actions = [], hints = [],
          expire_timeout = 5000\<rparr>"
  let ?n1 = "fooNotifier\<lparr>lastID := ''A-B-C'', replaceID := 7\<rparr>"
  let ?ev2 = "NotifyCall 1
         \<lparr>app_name = ''Music Player'', replaces_id = 0, app_icon = ''media-playback-start'',
          summary = ''A'', body = ''B'' @ [CHR 0x0A] @ ''C'', actions = [], hints = [],
          expire_timeout = 3000\<rparr>"
  have h1: "ReplaceExisting (options fooNotifier)"
    by (simp add: fooNotifier_def DefaultOptions_def)
  have h2: "Err (replyWith 7) = None" "Body (replyWith 7) = Uint32 7 # []"
    by (simp_all add: replyWith_def)
  have h3: "Notify fooNotifier (Some trackABC) StatePlaying (replyWith 7) = (None, ?n1, [?ev])"
    by (simp add: Notify_def showNotification_def currentID_def Let_def fooNotifier_def
        trackABC_def replyWith_def DefaultOptions_def StatePlaying_def StatePaused_def)
  have g: "Title trackXYZ \<noteq> [] \<or> Artist trackXYZ \<noteq> []"
    "\<not> (StatePlaying = StatePaused \<and> \<not> NotifyOnPause (options fooNotifier))"
    "currentID trackXYZ \<noteq> currentID trackABC"
    by (simp_all add: trackXYZ_def trackABC_def currentID_def StatePlaying_def StatePaused_def)
  have h4: "\<not> ReplaceExisting (options stackingNotifier)" "replaceID stackingNotifier = 9"
    by (simp_all add: stackingNotifier_def)
  have h5: "events (NotifyNow stackingNotifier (Some trackABC) StatePlaying (replyWith 8)) = [?ev2]"
    by (simp add: NotifyNow_def showNotification_def Let_def events_def stackingNotifier_def
        trackABC_def replyWith_def StatePlaying_def StatePaused_def)
  note C3 = C3_replace [of fooNotifier "replyWith 7" 7 "[]" trackABC StatePlaying None ?n1 ?ev
      trackXYZ StatePlaying "replyWith 8" stackingNotifier "Some trackABC" StatePlaying "replyWith 8"]
  have "\<exists>a. events (Notify ?n1 (Some trackXYZ) StatePlaying (replyWith 8)) =
            [NotifyCall (conn fooNotifier) a] \<and> replaces_id a = 7"
    using C3 h1 h2 h3 g by blast
  moreover have "conn fooNotifier = 1" by (simp add: fooNotifier_def)
  ultimately have "\<exists>a. events (Notify ?n1 (Some trackXYZ) StatePlaying (replyWith 8)) =
            [NotifyCall 1 a] \<and> replaces_id a = 7"
    by simp
  moreover have "replaces_id
         \<lparr>app_name = ''Music Player'', replaces_id = 0, app_icon = ''media-playback-start'',
          summary = ''A'', body = ''B'' @ [CHR 0x0A] @ ''C'', actions = [], hints = [],
          expire_timeout = 3000\<rparr> = 0"
    using C3 h4(1) h5 by simp
  ultimately show ?thesis
    using h1 h3 h4 h5 by blast
qed

subsection \<open>C4: the arguments of the transport call\<close>

text \<open>
  What the code sends. For every notifier, track, state and answer of the transport,
  \<^verbatim>\<open>showNotification\<close> makes exactly one \<^verbatim>\<open>Notify\<close> method call. Its summary, application
  name, icon and timeout, and its body in every state but \<open>Paused\<close>, are those of the
  formatting rules; in state \<open>Paused\<close> the body starts with the bytes of the source's
  literal.
\<close>

lemma showNotification_arguments:
  "events (showNotification n t s c) =
     [NotifyCall (conn n)
        \<lparr>app_name = (if AppName (options n) = [] then ''Music Player'' else AppName (options n)),
         replaces_id = (if ReplaceExisting (options n) then replaceID n else 0),
         app_icon = (if Icon (options n) = [] then ''media-playback-start'' else Icon (options n)),
         summary = (if Title t = [] then ''Now Playing'' else Title t),
         body =
           (if s = StatePaused then [CHR 0xC3, CHR 0xA2, CHR 0xC2, CHR 0xB8] @ '' '' else []) @
           (if Artist t \<noteq> [] \<and> Album t \<noteq> [] then Artist t @ [CHR 0x0A] @ Album t
            else if Artist t \<noteq> [] then Artist t
            else if Station t \<noteq> [] then Station t
            else ''Now Playing''),
         actions = [], hints = [],
         expire_timeout = Timeout (options n)\<rparr>]"
proof -
  have rid: "(if \<not> ReplaceExisting (options n) then 0 else replaceID n) =
             (if ReplaceExisting (options n) then replaceID n else 0)"
    by simp
  have pre: "(if s = StatePaused then pausePrefix @ b else b) =
             (if s = StatePaused then [CHR 0xC3, CHR 0xA2, CHR 0xC2, CHR 0xB8] @ '' '' else []) @ b"
    for b by (simp add: pausePrefix_def)
  show ?thesis
    unfolding showNotification_def events_def Let_def rid pre
    by (simp split: option.split split del: if_split)
qed

text \<open>
  The scenario of the specification (defaults for application "Foo", track A/B/C
  playing), and a paused station with every default in use.
\<close>

lemma showNotification_arguments_example:
  "events (showNotification fooNotifier trackABC StatePlaying (replyWith 7)) =
     [NotifyCall 1
        \<lparr>app_name = ''Foo'', replaces_id = 0, app_icon = ''media-playback-start'',
         summary = ''A'', body = ''B'' @ [CHR 0x0A] @ ''C'', actions = [], hints = [],
         expire_timeout = 5000\<rparr>] \<and>
   events (showNotification stackingNotifier trackStation StatePaused failedCall) =
     [NotifyCall 1
        \<lparr>app_name = ''Music Player'', replaces_id = 0, app_icon = ''media-playback-start'',
         summary = ''Now Playing'',
         body = [CHR 0xC3, CHR 0xA2, CHR 0xC2, CHR 0xB8] @ '' KEXP'', actions = [], hints = [],
         expire_timeout = 3000\<rparr>]"
  using showNotification_arguments [of fooNotifier trackABC StatePlaying "replyWith 7"]
    showNotification_arguments [of stackingNotifier trackStation StatePaused failedCall]
  by (simp add: fooNotifier_def stackingNotifier_def trackABC_def trackStation_def
      DefaultOptions_def StatePlaying_def StatePaused_def)

text \<open>
  Claim C4 says that the body of a paused track is prefixed by a pause glyph and a
  space. The code does not send one: for track A/B/C in state \<open>Paused\<close> the body starts
  with the four bytes \<^verbatim>\<open>c3 a2 c2 b8\<close> of the source's literal, which are the code points
  U+00E2 and U+00B8, and not with the three bytes \<^verbatim>\<open>e2 8f b8\<close> of the pause glyph U+23F8.
  The rest of the call is as the claim says.
\<close>

theorem C4_pause_prefix_not_glyph:
  "events (showNotification fooNotifier trackABC StatePaused (replyWith 7)) =
     [NotifyCall 1
        \<lparr>app_name = ''Foo'', replaces_id = 0, app_icon = ''media-playback-start'',
         summary = ''A'',
         body = [CHR 0xC3, CHR 0xA2, CHR 0xC2, CHR 0xB8] @ '' B'' @ [CHR 0x0A] @ ''C'',
         actions = [], hints = [], expire_timeout = 5000\<rparr>] \<and>
   pausePrefix \<noteq> pauseGlyph @ '' '' \<and>
   take (length (pauseGlyph @ '' ''))
     ([CHR 0xC3, CHR 0xA2, CHR 0xC2, CHR 0xB8] @ '' B'' @ [CHR 0x0A] @ ''C'') \<noteq>
     pauseGlyph @ '' ''"
  by (simp add: showNotification_def events_def Let_def pausePrefix_def pauseGlyph_def
      fooNotifier_def trackABC_def replyWith_def DefaultOptions_def StatePaused_def)

subsection \<open>C5: pause suppression\<close>

text \<open>
  Claim C5. With \<open>NotifyOnPause = False\<close>, \<^verbatim>\<open>Notify\<close> in state \<open>Paused\<close> returns no
  error, causes no bus event and leaves the notifier unchanged, for every track (absent
  or present, new identity or stored identity).
\<close>

theorem C5_pause_suppression:
  "\<not> NotifyOnPause (options n) \<Longrightarrow> Notify n tr StatePaused c = (None, n, [])"
  by (rule Notify_paused)

text \<open>
  C5 at a track whose identity is new to the notifier.
\<close>

theorem C5_pause_suppression_witness:
  "\<not> NotifyOnPause (options fooNotifier) \<and> currentID trackABC \<noteq> lastID fooNotifier \<and>
   Notify fooNotifier (Some trackABC) StatePaused (replyWith 7) = (None, fooNotifier, [])"
proof -
  have h: "\<not> NotifyOnPause (options fooNotifier)"
    by (simp add: fooNotifier_def DefaultOptions_def)
  have "currentID trackABC \<noteq> lastID fooNotifier"
    by (simp add: currentID_def trackABC_def fooNotifier_def)
  then show ?thesis
    using h C5_pause_suppression [OF h, of "Some trackABC" "replyWith 7"] by simp
qed

subsection \<open>C6: nothing playing\<close>

text \<open>
  Claim C6. For a track with empty title and empty artist, \<^verbatim>\<open>Notify\<close> returns no
  error, causes no bus event and leaves the notifier, its stored identity included,
  unchanged, in every state and for every stored identity.
\<close>

theorem C6_nothing_playing:
  "Title t = [] \<Longrightarrow> Artist t = [] \<Longrightarrow> Notify n (Some t) s c = (None, n, [])"
  by (rule Notify_nothing_playing)

text \<open>
  C6 at a track that has only a station.
\<close>

theorem C6_nothing_playing_witness:
  "Title trackStation = [] \<and> Artist trackStation = [] \<and>
   Notify fooNotifier (Some trackStation) StatePlaying (replyWith 7) = (None, fooNotifier, [])"
proof -
  have h: "Title trackStation = []" "Artist trackStation = []"
    by (simp_all add: trackStation_def)
  show ?thesis
    using h C6_nothing_playing [OF h, of fooNotifier StatePlaying "replyWith 7"] by simp
qed

subsection \<open>C7: a failed transport call\<close>

text \<open>
  Claim C7. When \<^verbatim>\<open>Notify\<close> makes its transport call and the call fails with \<open>cerr\<close>,
  \<^verbatim>\<open>Notify\<close> returns \<open>cerr\<close> wrapped as "failed to show notification", the stored
  handle is the one before the call, the stored identity is the key of the new track,
  and a following \<^verbatim>\<open>Notify\<close> with the same track and state is suppressed.
\<close>

theorem C7_transport_failure:
  assumes "Err call = Some cerr"
    and "Notify n (Some t) s call = (e, n', evs)"
    and "evs \<noteq> []"
  shows "e = Some (Errorf ''failed to show notification: '' cerr) \<and>
         replaceID n' = replaceID n \<and>
         lastID n' = currentID t \<and>
         n' = n\<lparr>lastID := currentID t\<rparr> \<and>
         Notify n' (Some t) s call2 = (None, n', [])"
proof -
  have "events (Notify n (Some t) s call) \<noteq> []"
    using assms(2,3) by (simp add: events_def)
  then have acc: "Title t \<noteq> [] \<or> Artist t \<noteq> []"
    "\<not> (s = StatePaused \<and> \<not> NotifyOnPause (options n))" "currentID t \<noteq> lastID n"
    using events_Notify_empty_iff [of n t s call] by blast+
  have eq: "Notify n (Some t) s call = showNotification (n\<lparr>lastID := currentID t\<rparr>) t s call"
    using acc by (rule Notify_accepted)
  then have sn: "showNotification (n\<lparr>lastID := currentID t\<rparr>) t s call = (e, n', evs)"
    using assms(2) by simp
  have "returned (showNotification (n\<lparr>lastID := currentID t\<rparr>) t s call) =
          Some (Errorf ''failed to show notification: '' cerr)"
    using assms(1) by (simp add: returned_showNotification)
  then have e: "e = Some (Errorf ''failed to show notification: '' cerr)"
    by (simp add: sn returned_def)
  have "after (showNotification (n\<lparr>lastID := currentID t\<rparr>) t s call) =
          n\<lparr>lastID := currentID t\<rparr>"
    using assms(1) by (simp add: after_showNotification)
  then have n': "n' = n\<lparr>lastID := currentID t\<rparr>"
    by (simp add: sn after_def)
  have "currentID t = lastID n'" using n' by simp
  then have "Notify n' (Some t) s call2 = (None, n', [])" by (rule Notify_duplicate)
  then show ?thesis using e n' by simp
qed

text \<open>
  C7 at track A/B/C on a closed connection.
\<close>

theorem C7_transport_failure_witness:
  "Err failedCall = Some (DBusError ''connection closed'') \<and>
   Notify fooNotifier (Some trackABC) StatePlaying failedCall =
     (Some (Errorf ''failed to show notification: '' (DBusError ''connection closed'')),
      fooNotifier\<lparr>lastID := ''A-B-C''\<rparr>,
      [NotifyCall 1
         \<lparr>app_name = ''Foo'', replaces_id = 0, app_icon = ''media-playback-start'',
          summary = ''A'', body = ''B'' @ [CHR 0x0A] @ ''C'', actions = [], hints = [],
          expire_timeout = 5000\<rparr>]) \<and>
   Notify (fooNotifier\<lparr>lastID := ''A-B-C''\<rparr>) (Some trackABC) StatePlaying (replyWith 7) =
     (None, fooNotifier\<lparr>lastID := ''A-B-C''\<rparr>, [])"
proof -
  have h1: "Err failedCall = Some (DBusError ''connection closed'')"
    by (simp add: failedCall_def)
  have h2: "Notify fooNotifier (Some trackABC) StatePlaying failedCall =
     (Some (Errorf ''failed to show notification: '' (DBusError ''connection closed'')),
      fooNotifier\<lparr>lastID := ''A-B-C''\<rparr>,
      [NotifyCall 1
         \<lparr>app_name = ''Foo'', replaces_id = 0, app_icon = ''media-playback-start'',
          summary = ''A'', body = ''B'' @ [CHR 0x0A] @ ''C'', actions = [], hints = [],
          expire_timeout = 5000\<rparr>])"
    by (simp add: Notify_def showNotification_def currentID_def Let_def fooNotifier_def
        trackABC_def failedCall_def DefaultOptions_def StatePlaying_def StatePaused_def)
  have "Notify (fooNotifier\<lparr>lastID := ''A-B-C''\<rparr>) (Some trackABC) StatePlaying (replyWith 7) =
     (None, fooNotifier\<lparr>lastID := ''A-B-C''\<rparr>, [])"
    using C7_transport_failure [OF h1 h2, of "replyWith 7"] by blast
  then show ?thesis
    by (intro conjI h1 h2)
qed

subsection \<open>C8: NotifyNow\<close>

text \<open>
  Claim C8. \<^verbatim>\<open>NotifyNow\<close> with an absent track is a no-op; with a track, in every state
  and for every notifier, two consecutive calls with the same track and state each make
  one transport call.
\<close>

theorem C8_NotifyNow:
  "NotifyNow n None s c = (None, n, []) \<and>
   (\<exists>a1 a2.
      events (NotifyNow n (Some t) s c1) = [NotifyCall (conn n) a1] \<and>
      events (NotifyNow (after (NotifyNow n (Some t) s c1)) (Some t) s c2) =
        [NotifyCall (conn n) a2])"
proof -
  let ?n1 = "after (showNotification n t s c1)"
  obtain a1 where a1: "events (showNotification n t s c1) = [NotifyCall (conn n) a1]"
    using events_showNotification [of n t s c1] by blast
  obtain a2 where "events (showNotification ?n1 t s c2) = [NotifyCall (conn ?n1) a2]"
    using events_showNotification [of ?n1 t s c2] by blast
  then have a2: "events (showNotification ?n1 t s c2) = [NotifyCall (conn n) a2]"
    using showNotification_frame [of n t s c1] by simp
  show ?thesis
    using a1 a2 by (simp add: NotifyNow_def)
qed

text \<open>
  C8 at a track with empty title and artist, in state \<open>Paused\<close>, with
  \<open>NotifyOnPause = False\<close>.
\<close>

theorem C8_NotifyNow_witness:
  "Title trackStation = [] \<and> Artist trackStation = [] \<and>
   \<not> NotifyOnPause (options fooNotifier) \<and>
   length (events (NotifyNow fooNotifier (Some trackStation) StatePaused (replyWith 7))) = 1 \<and>
   length (events (NotifyNow (after (NotifyNow fooNotifier (Some trackStation) StatePaused (replyWith 7)))
      (Some trackStation) StatePaused (replyWith 8))) = 1"
proof -
  have h: "Title trackStation = []" "Artist trackStation = []"
    "\<not> NotifyOnPause (options fooNotifier)"
    by (simp_all add: trackStation_def fooNotifier_def DefaultOptions_def)
  have "length (events (NotifyNow fooNotifier (Some trackStation) StatePaused (replyWith 7))) = 1"
    "length (events (NotifyNow (after (NotifyNow fooNotifier (Some trackStation) StatePaused (replyWith 7)))
      (Some trackStation) StatePaused (replyWith 8))) = 1"
    using C8_NotifyNow [of fooNotifier StatePaused "replyWith 7" trackStation "replyWith 7" "replyWith 8"]
    by auto
  then show ?thesis by (intro conjI h)
qed

subsection \<open>C9: the failed availability probe\<close>

text \<open>
  Claim C9. When the session connection \<open>c\<close> was opened and the capability probe
  fails, \<^verbatim>\<open>NewNotifier\<close> returns the wrapped error after it has closed \<open>c\<close>: the last
  bus event is \<open>Closed c\<close>, and \<open>c\<close> is not among the open connections afterwards.
  On every path, a construction that returns an error leaves no connection open, and
  one that returns a notifier leaves open the connection of that notifier.
\<close>

theorem C9_probe_failure_closes:
  assumes "Err probe = Some cerr"
  shows "NewNotifier opts (Inr c) probe =
           (Inl (Errorf ''D-Bus notifications not available: '' cerr),
            [Connected c, GetCapabilitiesCall c, Closed c]) \<and>
         c \<notin> set (open_after cs (snd (NewNotifier opts (Inr c) probe))) \<and>
         open_after [] (snd (NewNotifier opts (Inr c) probe)) = [] \<and>
         (case fst (NewNotifier opts connect probe') of
            Inl err \<Rightarrow> open_after [] (snd (NewNotifier opts connect probe')) = []
          | Inr n \<Rightarrow> open_after [] (snd (NewNotifier opts connect probe')) = [conn n])"
proof -
  have "NewNotifier opts (Inr c) probe =
           (Inl (Errorf ''D-Bus notifications not available: '' cerr),
            [Connected c, GetCapabilitiesCall c, Closed c])"
    using assms by (simp add: NewNotifier_def)
  moreover have
    "case fst (NewNotifier opts connect probe') of
       Inl err \<Rightarrow> open_after [] (snd (NewNotifier opts connect probe')) = []
     | Inr n \<Rightarrow> open_after [] (snd (NewNotifier opts connect probe')) = [conn n]"
    by (simp add: NewNotifier_def split: sum.split option.split)
  ultimately show ?thesis by simp
qed

text \<open>
  C9 at connection 3 with a probe that fails.
\<close>

theorem C9_probe_failure_closes_witness:
  "Err failedCall = Some (DBusError ''connection closed'') \<and>
   NewNotifier (DefaultOptions ''Foo'') (Inr 3) failedCall =
     (Inl (Errorf ''D-Bus notifications not available: '' (DBusError ''connection closed'')),
      [Connected 3, GetCapabilitiesCall 3, Closed 3]) \<and>
   open_after [] (snd (NewNotifier (DefaultOptions ''Foo'') (Inr 3) failedCall)) = []"
proof -
  have h: "Err failedCall = Some (DBusError ''connection closed'')"
    by (simp add: failedCall_def)
  show ?thesis
    using h C9_probe_failure_closes [OF h, of "DefaultOptions ''Foo''" 3 "[]"] by blast
qed

subsection \<open>C10: NotifyNow leaves the stored identity alone\<close>

text \<open>
  Claim C10. \<^verbatim>\<open>NotifyNow\<close> leaves the stored identity as it was, and changes at most the
  stored handle; so a following \<^verbatim>\<open>Notify\<close> is suppressed after the \<^verbatim>\<open>NotifyNow\<close> exactly
  when it would have been suppressed without it.
\<close>

theorem C10_NotifyNow_frame:
  "lastID (after (NotifyNow n tr s c)) = lastID n \<and>
   (after (NotifyNow n tr s c))\<lparr>replaceID := replaceID n\<rparr> = n \<and>
   (events (Notify (after (NotifyNow n tr s c)) tr' s' c') = []) =
     (events (Notify n tr' s' c') = [])"
proof -
  let ?n1 = "after (NotifyNow n tr s c)"
  have fr: "lastID ?n1 = lastID n \<and> options ?n1 = options n \<and> ?n1\<lparr>replaceID := replaceID n\<rparr> = n"
  proof (cases tr)
    case None
    then show ?thesis by (simp add: NotifyNow_def after_def)
  next
    case (Some t)
    then show ?thesis
      using showNotification_frame [of n t s c] showNotification_only_replaceID [of n t s c]
      by (simp add: NotifyNow_def)
  qed
  have "(events (Notify ?n1 tr' s' c') = []) = (events (Notify n tr' s' c') = [])"
  proof (cases tr')
    case None
    then show ?thesis by (simp add: Notify_nil events_def)
  next
    case (Some t')
    then show ?thesis using fr by (simp only: events_Notify_empty_iff)
  qed
  then show ?thesis using fr by blast
qed

text \<open>
  C10 at track A/B/C: after \<^verbatim>\<open>NotifyNow\<close> the stored identity is still empty, and
  \<^verbatim>\<open>Notify\<close> for the same track makes its transport call.
\<close>

theorem C10_NotifyNow_frame_witness:
  "after (NotifyNow fooNotifier (Some trackABC) StatePlaying (replyWith 7)) =
     fooNotifier\<lparr>replaceID := 7\<rparr> \<and>
   lastID (after (NotifyNow fooNotifier (Some trackABC) StatePlaying (replyWith 7))) = [] \<and>
   events (Notify (after (NotifyNow fooNotifier (Some trackABC) StatePlaying (replyWith 7)))
     (Some trackABC) StatePlaying (replyWith 8)) =
     [NotifyCall 1
        \<lparr>app_name = ''Foo'', replaces_id = 7, app_icon = ''media-playback-start'',
         summary = ''A'', body = ''B'' @ [CHR 0x0A] @ ''C'', actions = [], hints = [],
         expire_timeout = 5000\<rparr>]"
  using C10_NotifyNow_frame [of fooNotifier "Some trackABC" StatePlaying "replyWith 7"]
  by (simp add: NotifyNow_def Notify_def showNotification_def currentID_def Let_def after_def
      events_def fooNotifier_def trackABC_def replyWith_def DefaultOptions_def StatePlaying_def
      StatePaused_def)

end
